theory Spec2Isabelle
  imports Main
begin

section \<open>The type-annotation registry of numba/core/typing/asnumbatype.py\<close>

text \<open>
  The module holds one class, \<^verbatim>\<open>AsNumbaTypeRegistry\<close>: a dictionary \<^verbatim>\<open>lookup\<close> from
  Python type objects to numba types and a list \<^verbatim>\<open>functions\<close> of inference functions.
  \<^verbatim>\<open>try_infer\<close> reads the dictionary first and then calls the functions in list order;
  \<^verbatim>\<open>_builtin_infer\<close> calls \<^verbatim>\<open>infer\<close> again on the parts of a \<^verbatim>\<open>typing\<close> alias.

  Conventions of the embedding.
  \<^item> The interpreter is Python 3.7 or later, so every \<^verbatim>\<open>_py_version_switch((3, 7), new, old)\<close>
    of \<^verbatim>\<open>_builtin_infer\<close> is its \<^verbatim>\<open>new\<close> argument (\<open>py_version_switch_new\<close> below):
    \<^verbatim>\<open>utils.PYVERSION\<close> is not part of the source file, and \<^verbatim>\<open>typing._GenericAlias\<close>, which the
    new branch tests, exists from 3.7 on.
  \<^item> Python objects handed to the registry are hashable, so \<^verbatim>\<open>dict.get\<close> does not raise, and
    the call stack is deep enough for the nesting of the Python type.
  \<^item> The constructors of \<^verbatim>\<open>numba.core.types\<close>, \<^verbatim>\<open>types.BaseTuple.from_types\<close> and
    \<^verbatim>\<open>numpy_support.from_dtype\<close> are not part of the source file. They are parameters of the
    embedding (the record \<open>types_module\<close>): each returns a numba type or raises.
  \<^item> An exception is a value \<open>Inl e\<close>; every function returns its result together with the
    registry as it is when the function returns or raises.
\<close>

subsection \<open>The version switch\<close>

text \<open>
  \<^verbatim>\<open>_py_version_switch\<close>, with \<^verbatim>\<open>utils.PYVERSION\<close> as a parameter: a pair (major, minor),
  compared as Python compares tuples.
\<close>

definition py_version_switch :: "nat \<times> nat \<Rightarrow> nat \<times> nat \<Rightarrow> 'a \<Rightarrow> 'a \<Rightarrow> 'a" where
  "py_version_switch PYVERSION py_version new_result old_result =
     (if fst py_version < fst PYVERSION
         \<or> (fst py_version = fst PYVERSION \<and> snd py_version \<le> snd PYVERSION)
      then new_result else old_result)"

subsection \<open>Python objects and numba types\<close>

text \<open>Class objects the source names, and the classes it does not name.\<close>

datatype pyclass =
    IntC | FloatC | ComplexC | StrC | BoolC | NoneTypeC
  | ListC | DictC | SetC | TupleC
  | NdarrayC
  | NpGeneric nat   \<comment> \<open>a subclass of \<^verbatim>\<open>np.generic\<close>\<close>
  | UserClass nat   \<comment> \<open>any other class\<close>

text \<open>
  Modelled from the spec: the scalar types that \<^verbatim>\<open>typeof\<close> (of
  \<^verbatim>\<open>numba.core.typing.typeof\<close>) returns are not part of the source file; the spec calls them
  Scalar, one for each primitive host type.
\<close>

datatype scalar =
    IntS | FloatS | ComplexS | StrS | BoolS | NoneS

text \<open>
  \<open>nbtype\<close> are the instances of \<^verbatim>\<open>types.Type\<close>, each named by the class and the arguments it
  was built from; \<open>pyobj\<close> are all Python objects that reach the registry. An instance of \<^verbatim>\<open>bool\<close> is an instance of \<^verbatim>\<open>int\<close> and equal to 0 or 1, so
  \<open>PyInt\<close> covers both. \<open>GenericAlias origin args\<close> is an instance of
  \<^verbatim>\<open>typing._GenericAlias\<close> with no \<^verbatim>\<open>__metadata__\<close>; \<open>AnnotatedAlias inner metadata\<close> is
  \<^verbatim>\<open>Annotated[inner, *metadata]\<close>, an instance of \<^verbatim>\<open>typing._GenericAlias\<close> whose
  \<^verbatim>\<open>__args__\<close> is \<^verbatim>\<open>(inner,)\<close>.
\<close>

datatype nbtype =
    Scalar scalar
  | Optional nbtype
  | ListType nbtype
  | DictType nbtype nbtype
  | SetType nbtype
  | TupleType "nbtype list"     \<comment> \<open>built by \<^verbatim>\<open>types.BaseTuple.from_types\<close>\<close>
  | Array nbtype pyobj pyobj    \<comment> \<open>dtype, ndim, layout\<close>
  | OtherType nat               \<comment> \<open>any other instance of \<^verbatim>\<open>types.Type\<close>\<close>
and pyobj =
    PyNone
  | PyInt int
  | PyStr string
  | PyClass pyclass
  | TypingUnion                 \<comment> \<open>the special form \<^verbatim>\<open>typing.Union\<close>\<close>
  | NbType nbtype
  | GenericAlias pyobj "pyobj list"
  | AnnotatedAlias pyobj "pyobj list"
  | Opaque nat                  \<comment> \<open>any other object\<close>

subsection \<open>Exceptions\<close>

datatype typing_msg =
    NotNumbaType pyobj          \<comment> \<open>as_numba_type should return a numba type, got ...\<close>
  | CannotInfer pyobj           \<comment> \<open>Cannot infer numba type of python type ...\<close>
  | InvalidAnnotated            \<comment> \<open>Invalid Annotated syntax. Valid cases are: ...\<close>
  | UnionMoreThanTwo            \<comment> \<open>Cannot type Union of more than two types\<close>
  | UnionNotOptional pyobj      \<comment> \<open>Cannot type Union that is not an Optional ...\<close>
  | RaisedByTypes string        \<comment> \<open>a \<^verbatim>\<open>TypingError\<close> of \<^verbatim>\<open>numba.core.types\<close>, with its class\<close>

datatype error =
    TypingError typing_msg
  | ValueError                  \<comment> \<open>a tuple unpacked into the wrong number of names\<close>
  | AssertionError
  | OtherError string           \<comment> \<open>an exception of any other class\<close>


subsection \<open>The library of numba types\<close>

text \<open>
  What the source calls and does not define: the five constructors of \<^verbatim>\<open>numba.core.types\<close>,
  \<^verbatim>\<open>types.BaseTuple.from_types\<close>, and \<^verbatim>\<open>numpy_support.from_dtype\<close> on the subclasses of
  \<^verbatim>\<open>np.generic\<close>. Each is a parameter: a function that returns a numba type or raises.
\<close>

record types_module =
  types_Array :: "nbtype \<Rightarrow> pyobj \<Rightarrow> pyobj \<Rightarrow> error + nbtype"   \<comment> \<open>dtype, ndim, layout\<close>
  types_Optional :: "nbtype \<Rightarrow> error + nbtype"
  types_ListType :: "nbtype \<Rightarrow> error + nbtype"
  types_DictType :: "nbtype \<Rightarrow> nbtype \<Rightarrow> error + nbtype"
  types_Set :: "nbtype \<Rightarrow> error + nbtype"
  from_types :: "nbtype list \<Rightarrow> error + nbtype"
  from_dtype :: "nat \<Rightarrow> error + nbtype"

subsection \<open>The registry\<close>

text \<open>
  The three bound methods that \<^verbatim>\<open>__init__\<close> puts into \<^verbatim>\<open>self.functions\<close>, and the functions
  that \<^verbatim>\<open>register\<close> appends. A registered function gets the Python type and returns an object
  (\<open>PyNone\<close> for \<^verbatim>\<open>None\<close>) or raises; it is a function of the Python type alone.
\<close>

datatype strategy =
    Builtin_infer
  | Numba_type_infer
  | Numpy_type_infer
  | Custom "pyobj \<Rightarrow> error + pyobj"

record registry =
  lookup :: "pyobj \<rightharpoonup> nbtype"
  functions_list :: "strategy list"   \<comment> \<open>\<^verbatim>\<open>self.functions\<close>\<close>

text \<open>
  Modelled from the spec: \<^verbatim>\<open>typeof\<close> is not part of the source file; on the six examples of
  \<^verbatim>\<open>__init__\<close> it gives the scalar type of the example's class.
\<close>

definition AsNumbaTypeRegistry_init :: registry where
  "AsNumbaTypeRegistry_init =
     \<lparr> lookup = map_of
         [(PyClass IntC, Scalar IntS),
          (PyClass FloatC, Scalar FloatS),
          (PyClass ComplexC, Scalar ComplexS),
          (PyClass StrC, Scalar StrS),
          (PyClass BoolC, Scalar BoolS),
          (PyClass NoneTypeC, Scalar NoneS)],
       functions_list = [Builtin_infer, Numba_type_infer, Numpy_type_infer] \<rparr>"

fun numba_type_infer :: "pyobj \<Rightarrow> pyobj" where
  "numba_type_infer (NbType t) = NbType t"
| "numba_type_infer py_type = PyNone"

text \<open>\<^verbatim>\<open>return f(...)\<close> for a function \<open>f\<close> of the library.\<close>

definition return_type :: "error + nbtype \<Rightarrow> error + pyobj" where
  "return_type r = (case r of Inl e \<Rightarrow> Inl e | Inr t \<Rightarrow> Inr (NbType t))"

fun numpy_type_infer :: "types_module \<Rightarrow> pyobj \<Rightarrow> error + pyobj" where
  "numpy_type_infer lib (PyClass (NpGeneric k)) = return_type (from_dtype lib k)"
| "numpy_type_infer lib py_type = Inr PyNone"

fun is_int :: "pyobj \<Rightarrow> bool" where
  "is_int (PyInt n) = True"
| "is_int x = False"

text \<open>
  \<open>builtin_infer\<close>, \<open>try_infer\<close> and \<open>infer\<close> are the methods of the source.
  \<open>infer_each\<close> is \<^verbatim>\<open>tuple(map(self.infer, py_type.__args__))\<close>; \<open>call_strategy\<close> is
  \<^verbatim>\<open>func(py_type)\<close>; \<open>run_functions\<close> is the \<^verbatim>\<open>for\<close> loop of \<^verbatim>\<open>try_infer\<close> over the
  functions not yet visited, with the current value of \<^verbatim>\<open>result\<close>.
  \<open>try_infer\<close> returns \<^verbatim>\<open>None\<close> or an instance of \<^verbatim>\<open>types.Type\<close>: an \<open>nbtype option\<close>.
  All of them take the library \<open>lib\<close> that the module imports.
\<close>

function (sequential)
    builtin_infer :: "types_module \<Rightarrow> registry \<Rightarrow> pyobj \<Rightarrow> (error + pyobj) \<times> registry"
and infer_each :: "types_module \<Rightarrow> registry \<Rightarrow> pyobj list \<Rightarrow> (error + nbtype list) \<times> registry"
and call_strategy :: "types_module \<Rightarrow> registry \<Rightarrow> strategy \<Rightarrow> pyobj \<Rightarrow> (error + pyobj) \<times> registry"
and run_functions :: "types_module \<Rightarrow> registry \<Rightarrow> strategy list \<Rightarrow> pyobj \<Rightarrow> pyobj \<Rightarrow> (error + pyobj) \<times> registry"
and try_infer :: "types_module \<Rightarrow> registry \<Rightarrow> pyobj \<Rightarrow> (error + nbtype option) \<times> registry"
and infer :: "types_module \<Rightarrow> registry \<Rightarrow> pyobj \<Rightarrow> (error + nbtype) \<times> registry"
where
  "builtin_infer lib reg (AnnotatedAlias inner_py_type annotations) =
     (if length annotations = 1 then
        (case infer lib reg (annotations ! 0) of
           (Inl e, reg1) \<Rightarrow> (Inl e, reg1)
         | (Inr t, reg1) \<Rightarrow> (Inr (NbType t), reg1))
      else if (length annotations = 2 \<or> length annotations = 3)
              \<and> inner_py_type = PyClass NdarrayC
              \<and> is_int (annotations ! 1) then
        (let layout = (if length annotations = 3 then annotations ! 2 else PyStr ''A'')
         in case infer lib reg (annotations ! 0) of
              (Inl e, reg1) \<Rightarrow> (Inl e, reg1)
            | (Inr dtype, reg1) \<Rightarrow>
                (return_type (types_Array lib dtype (annotations ! 1) layout), reg1))
      else (Inl (TypingError InvalidAnnotated), reg))"
| "builtin_infer lib reg (GenericAlias py_type_origin args) =
     (if py_type_origin = TypingUnion then
        (if length args \<noteq> 2 then (Inl (TypingError UnionMoreThanTwo), reg)
         else
           (let arg_1_py = args ! 0; arg_2_py = args ! 1 in
            if arg_2_py = PyClass NoneTypeC then
              (case infer lib reg arg_1_py of
                 (Inl e, reg1) \<Rightarrow> (Inl e, reg1)
               | (Inr t, reg1) \<Rightarrow> (return_type (types_Optional lib t), reg1))
            else if arg_1_py = PyClass NoneTypeC then
              (case infer lib reg arg_2_py of
                 (Inl e, reg1) \<Rightarrow> (Inl e, reg1)
               | (Inr t, reg1) \<Rightarrow> (return_type (types_Optional lib t), reg1))
            else (Inl (TypingError (UnionNotOptional arg_2_py)), reg)))
      else if py_type_origin = PyClass ListC then
        (case args of
           [element_py] \<Rightarrow>
             (case infer lib reg element_py of
                (Inl e, reg1) \<Rightarrow> (Inl e, reg1)
              | (Inr t, reg1) \<Rightarrow> (return_type (types_ListType lib t), reg1))
         | _ \<Rightarrow> (Inl ValueError, reg))
      else if py_type_origin = PyClass DictC then
        (case args of
           [key_py, value_py] \<Rightarrow>
             (case infer lib reg key_py of
                (Inl e, reg1) \<Rightarrow> (Inl e, reg1)
              | (Inr k, reg1) \<Rightarrow>
                  (case infer lib reg1 value_py of
                     (Inl e, reg2) \<Rightarrow> (Inl e, reg2)
                   | (Inr v, reg2) \<Rightarrow> (return_type (types_DictType lib k v), reg2)))
         | _ \<Rightarrow> (Inl ValueError, reg))
      else if py_type_origin = PyClass SetC then
        (case args of
           [element_py] \<Rightarrow>
             (case infer lib reg element_py of
                (Inl e, reg1) \<Rightarrow> (Inl e, reg1)
              | (Inr t, reg1) \<Rightarrow> (return_type (types_Set lib t), reg1))
         | _ \<Rightarrow> (Inl ValueError, reg))
      else if py_type_origin = PyClass TupleC then
        (case infer_each lib reg args of
           (Inl e, reg1) \<Rightarrow> (Inl e, reg1)
         | (Inr tys, reg1) \<Rightarrow> (return_type (from_types lib tys), reg1))
      else (Inr PyNone, reg))"
| "builtin_infer lib reg py_type = (Inr PyNone, reg)"
| "infer_each lib reg [] = (Inr [], reg)"
| "infer_each lib reg (py_type # rest) =
     (case infer lib reg py_type of
        (Inl e, reg1) \<Rightarrow> (Inl e, reg1)
      | (Inr t, reg1) \<Rightarrow>
          (case infer_each lib reg1 rest of
             (Inl e, reg2) \<Rightarrow> (Inl e, reg2)
           | (Inr ts, reg2) \<Rightarrow> (Inr (t # ts), reg2)))"
| "call_strategy lib reg Builtin_infer py_type = builtin_infer lib reg py_type"
| "call_strategy lib reg Numba_type_infer py_type = (Inr (numba_type_infer py_type), reg)"
| "call_strategy lib reg Numpy_type_infer py_type = (numpy_type_infer lib py_type, reg)"
| "call_strategy lib reg (Custom f) py_type = (f py_type, reg)"
| "run_functions lib reg [] py_type result = (Inr result, reg)"
| "run_functions lib reg (func # funcs) py_type result =
     (if result \<noteq> PyNone then (Inr result, reg)
      else
        (case call_strategy lib reg func py_type of
           (Inl e, reg1) \<Rightarrow> (Inl e, reg1)
         | (Inr result1, reg1) \<Rightarrow> run_functions lib reg1 funcs py_type result1))"
| "try_infer lib reg py_type =
     (let result = (case lookup reg py_type of None \<Rightarrow> PyNone | Some t \<Rightarrow> NbType t) in
      case run_functions lib reg (functions_list reg) py_type result of
        (Inl e, reg1) \<Rightarrow> (Inl e, reg1)
      | (Inr PyNone, reg1) \<Rightarrow> (Inr None, reg1)
      | (Inr (NbType t), reg1) \<Rightarrow> (Inr (Some t), reg1)
      | (Inr result1, reg1) \<Rightarrow> (Inl (TypingError (NotNumbaType result1)), reg1))"
| "infer lib reg py_type =
     (case try_infer lib reg py_type of
        (Inl e, reg1) \<Rightarrow> (Inl e, reg1)
      | (Inr None, reg1) \<Rightarrow> (Inl (TypingError (CannotInfer py_type)), reg1)
      | (Inr (Some result), reg1) \<Rightarrow> (Inr result, reg1))"
  by pat_completeness auto
termination
proof -
  have nth: "size (xs ! i) < size_list size xs" if "i < length xs"
    for xs :: "pyobj list" and i
    using that
  proof (induction xs arbitrary: i)
    case Nil
    then show ?case by simp
  next
    case (Cons x xs)
    show ?case
    proof (cases i)
      case 0
      then show ?thesis by simp
    next
      case (Suc j)
      with Cons.prems have "j < length xs" by simp
      from Cons.IH [OF this] Suc show ?thesis by simp
    qed
  qed
  have nth_Suc: "size (xs ! i) < Suc (size_list size xs)" if "i < length xs"
    for xs :: "pyobj list" and i
    using nth [OF that] by simp
  have nth_add: "size (xs ! i) < Suc (size_list size xs + n)" if "i < length xs"
    for xs :: "pyobj list" and i n
    using nth [OF that] by simp
  show ?thesis
    by (relation "measures
   [case_sum
      (case_sum (\<lambda>(lib, reg, py_type). size py_type)
        (case_sum (\<lambda>(lib, reg, args). size_list size args)
                  (\<lambda>(lib, reg, func, py_type). size py_type)))
      (case_sum (\<lambda>(lib, reg, funcs, py_type, result). size py_type)
        (case_sum (\<lambda>(lib, reg, py_type). size py_type)
                  (\<lambda>(lib, reg, py_type). size py_type))),
    case_sum
      (case_sum (\<lambda>(lib, reg, py_type). 1)
        (case_sum (\<lambda>(lib, reg, args). 0)
                  (\<lambda>(lib, reg, func, py_type). 2)))
      (case_sum (\<lambda>(lib, reg, funcs, py_type, result). 3)
        (case_sum (\<lambda>(lib, reg, py_type). 4)
                  (\<lambda>(lib, reg, py_type). 5))),
    case_sum
      (\<lambda>x. 0)
      (case_sum (\<lambda>(lib, reg, funcs, py_type, result). length funcs)
        (\<lambda>x. 0))]")
       (auto simp: nth_Suc nth_add)
qed


text \<open>
  \<^verbatim>\<open>register\<close> has two forms, told apart by \<^verbatim>\<open>numba_type is not None\<close>.
  \<open>register_type\<close> is the call \<^verbatim>\<open>register(py_type, numba_type)\<close> on a Python type object:
  with \<^verbatim>\<open>None\<close> as second argument the source takes the decorator branch, whose assertion
  \<^verbatim>\<open>inspect.isfunction\<close> fails on a type object. \<open>register_function\<close> is the call
  \<^verbatim>\<open>register(func)\<close> on a function, which appends it.
\<close>

definition register_type :: "registry \<Rightarrow> pyobj \<Rightarrow> pyobj \<Rightarrow> error + registry" where
  "register_type reg py_type numba_type =
     (if numba_type \<noteq> PyNone then
        (case numba_type of
           NbType t \<Rightarrow> Inr (reg\<lparr>lookup := (lookup reg)(py_type \<mapsto> t)\<rparr>)
         | _ \<Rightarrow> Inl AssertionError)
      else Inl AssertionError)"

definition register_function :: "registry \<Rightarrow> (pyobj \<Rightarrow> error + pyobj) \<Rightarrow> registry" where
  "register_function reg func = reg\<lparr>functions_list := functions_list reg @ [Custom func]\<rparr>"

subsection \<open>Notions used in the statements\<close>

text \<open>The registries a program can hold: the constructed one, changed by calls of \<^verbatim>\<open>register\<close>.\<close>

inductive reachable :: "registry \<Rightarrow> bool" where
  constructed: "reachable AsNumbaTypeRegistry_init"
| registered_type:
    "reachable reg \<Longrightarrow> register_type reg py_type numba_type = Inr reg' \<Longrightarrow> reachable reg'"
| registered_function:
    "reachable reg \<Longrightarrow> reachable (register_function reg func)"





text \<open>A result that is a value, or an exception with the property \<open>P\<close>.\<close>

fun fails_only :: "(error \<Rightarrow> bool) \<Rightarrow> error + 'a \<Rightarrow> bool" where
  "fails_only P (Inl e) = P e"
| "fails_only P (Inr x) = True"

subsection \<open>Instances for the examples\<close>

text \<open>
  A library for the examples; the theorems hold for every library. Each constructor builds the
  type named by its arguments, after checks that the constructors of \<^verbatim>\<open>numba.core.types\<close> make
  on them:
  \<^verbatim>\<open>Array\<close> refuses a dtype that is itself an array (\<^verbatim>\<open>NumbaTypeError\<close>) and a layout other than
  \<^verbatim>\<open>"C"\<close>, \<^verbatim>\<open>"F"\<close>, \<^verbatim>\<open>"A"\<close> (\<^verbatim>\<open>NumbaValueError\<close>), both subclasses of \<^verbatim>\<open>TypingError\<close>;
  \<^verbatim>\<open>Optional\<close> asserts that its argument is neither \<^verbatim>\<open>none\<close> nor an \<^verbatim>\<open>Optional\<close>;
  \<^verbatim>\<open>ListType\<close> and \<^verbatim>\<open>DictType\<close> raise \<^verbatim>\<open>TypingError\<close> on \<^verbatim>\<open>none\<close> and on an \<^verbatim>\<open>Optional\<close>, and
  \<^verbatim>\<open>DictType\<close> on a \<^verbatim>\<open>Set\<close>; \<^verbatim>\<open>Set\<close> asserts that its argument is hashable.
  Of the subclasses of \<^verbatim>\<open>np.generic\<close>, number 0 stands for \<^verbatim>\<open>np.generic\<close> itself, on which
  \<^verbatim>\<open>from_dtype\<close> raises \<^verbatim>\<open>TypeError\<close>, 1 for \<^verbatim>\<open>np.int64\<close> and 2 for \<^verbatim>\<open>np.float64\<close>.
\<close>

fun is_none_or_Optional :: "nbtype \<Rightarrow> bool" where
  "is_none_or_Optional (Scalar NoneS) = True"
| "is_none_or_Optional (Optional t) = True"
| "is_none_or_Optional t = False"

fun is_Hashable :: "nbtype \<Rightarrow> bool" where
  "is_Hashable (Scalar NoneS) = False"
| "is_Hashable (Scalar k) = True"
| "is_Hashable (TupleType tys) = True"
| "is_Hashable t = False"

fun is_Array :: "nbtype \<Rightarrow> bool" where
  "is_Array (Array dtype ndim layout) = True"
| "is_Array t = False"

fun is_Set :: "nbtype \<Rightarrow> bool" where
  "is_Set (SetType t) = True"
| "is_Set t = False"

definition example_types :: types_module where
  "example_types =
     \<lparr> types_Array = (\<lambda>dtype ndim layout.
         if is_Array dtype then Inl (TypingError (RaisedByTypes ''NumbaTypeError''))
         else if layout \<notin> {PyStr ''C'', PyStr ''F'', PyStr ''A''}
           then Inl (TypingError (RaisedByTypes ''NumbaValueError''))
         else Inr (Array dtype ndim layout)),
       types_Optional = (\<lambda>t.
         if is_none_or_Optional t then Inl AssertionError else Inr (Optional t)),
       types_ListType = (\<lambda>t.
         if is_none_or_Optional t then Inl (TypingError (RaisedByTypes ''TypingError''))
         else Inr (ListType t)),
       types_DictType = (\<lambda>k v.
         if is_none_or_Optional k \<or> is_none_or_Optional v \<or> is_Set k \<or> is_Set v
           then Inl (TypingError (RaisedByTypes ''TypingError''))
         else Inr (DictType k v)),
       types_Set = (\<lambda>t. if is_Hashable t then Inr (SetType t) else Inl AssertionError),
       from_types = (\<lambda>tys. Inr (TupleType tys)),
       from_dtype = (\<lambda>k.
         if k = 0 then Inl (OtherError ''TypeError'')
         else if k = 1 then Inr (Scalar IntS)
         else if k = 2 then Inr (Scalar FloatS)
         else Inr (OtherType k)) \<rparr>"

text \<open>The constructed registry after \<^verbatim>\<open>register(np.ndarray, t)\<close> for some numba type \<open>t\<close>.\<close>

definition ndarray_registered :: registry where
  "ndarray_registered =
     AsNumbaTypeRegistry_init
       \<lparr>lookup := (lookup AsNumbaTypeRegistry_init)(PyClass NdarrayC \<mapsto> OtherType 0)\<rparr>"


section \<open>Properties of resolution\<close>

subsection \<open>The version switch on Python 3.7 and later\<close>

lemma py_version_switch_new:
  assumes "3 < major \<or> (major = 3 \<and> 7 \<le> minor)"
  shows "py_version_switch (major, minor) (3, 7) new_result old_result = new_result"
  using assms by (auto simp: py_version_switch_def)

subsection \<open>The registry is only read\<close>

declare infer.simps [simp del] try_infer.simps [simp del] builtin_infer.simps(1,2) [simp del]

lemmas resolution_simps =
  infer.simps try_infer.simps builtin_infer.simps(1,2) Let_def AsNumbaTypeRegistry_init_def

lemma snd_case_result [simp]:
  "snd (case p of (Inl e, r) \<Rightarrow> (Inl e, r) | (Inr t, r) \<Rightarrow> h t r) =
     (case p of (Inl e, r) \<Rightarrow> r | (Inr t, r) \<Rightarrow> snd (h t r))"
  by (simp split: prod.split sum.split)

lemma registry_unchanged:
  "snd (builtin_infer lib reg py_type) = reg"
  "snd (infer_each lib reg args) = reg"
  "snd (call_strategy lib reg func py_type) = reg"
  "snd (run_functions lib reg funcs py_type result) = reg"
  "snd (try_infer lib reg py_type) = reg"
  "snd (infer lib reg py_type) = reg"
proof (induction lib reg py_type and lib reg args and lib reg func py_type
         and lib reg funcs py_type result and lib reg py_type and lib reg py_type
       rule: builtin_infer_infer_each_call_strategy_run_functions_try_infer_infer.induct)
  case (1 lib reg inner_py_type annotations)
  then show ?case
    by (auto simp: builtin_infer.simps(1) Let_def split: prod.split sum.split)
next
  case (2 lib reg py_type_origin args)
  note [simp] = builtin_infer.simps(2)
  show ?case
  proof (cases "py_type_origin = TypingUnion")
    case True
    show ?thesis
    proof (cases "length args = 2")
      case False
      with True show ?thesis by simp
    next
      case len: True
      show ?thesis
      proof (cases "args ! 1 = PyClass NoneTypeC")
        case a2: True
        from len have "\<not> length args \<noteq> 2" by simp
        from 2(1) [OF True this refl refl a2] have "snd (infer lib reg (args ! 0)) = reg" .
        with True len a2 show ?thesis
          by (auto simp: Let_def split: prod.split sum.split)
      next
        case a2: False
        show ?thesis
        proof (cases "args ! 0 = PyClass NoneTypeC")
          case a1: True
          from len have "\<not> length args \<noteq> 2" by simp
          from 2(2) [OF True this refl refl a2 a1] have "snd (infer lib reg (args ! 1)) = reg" .
          with True len a2 a1 show ?thesis
            by (auto simp: Let_def split: prod.split sum.split)
        next
          case a1: False
          with True len a2 show ?thesis by (simp add: Let_def)
        qed
      qed
    qed
  next
    case nu: False
    show ?thesis
    proof (cases "py_type_origin = PyClass ListC")
      case True
      show ?thesis
      proof (cases "\<exists>element_py. args = [element_py]")
        case False
        with nu True show ?thesis
          by (simp split: list.split)
      next
        case one: True
        then obtain element_py where args: "args = [element_py]" by blast
        from 2(3) [OF nu True args refl]
        have "snd (infer lib reg element_py) = reg" .
        with nu True args show ?thesis
          by (auto split: prod.split sum.split)
      qed
    next
      case nl: False
      show ?thesis
      proof (cases "py_type_origin = PyClass DictC")
        case True
        show ?thesis
        proof (cases "\<exists>key_py value_py. args = [key_py, value_py]")
          case False
          with nu nl True show ?thesis
            by (simp split: list.split)
        next
          case two: True
          then obtain key_py value_py where args: "args = [key_py, value_py]" by blast
          obtain x y where k: "infer lib reg key_py = (x, y)" by (cases "infer lib reg key_py")
          from 2(4) [OF nu nl True args refl refl] k have y: "y = reg" by simp
          show ?thesis
          proof (cases x)
            case (Inl e)
            with nu nl True args k y show ?thesis by simp
          next
            case (Inr b)
            from 2(5) [OF nu nl True args refl refl k [symmetric] Inr]
            have "snd (infer lib y value_py) = y" .
            with nu nl True args k y Inr show ?thesis
              by (auto split: prod.split sum.split)
          qed
        qed
      next
        case nd: False
        show ?thesis
        proof (cases "py_type_origin = PyClass SetC")
          case True
          show ?thesis
          proof (cases "\<exists>element_py. args = [element_py]")
            case False
            with nu nl nd True show ?thesis
              by (simp split: list.split)
          next
            case one: True
            then obtain element_py where args: "args = [element_py]" by blast
            from 2(6) [OF nu nl nd True args refl]
            have "snd (infer lib reg element_py) = reg" .
            with nu nl nd True args show ?thesis
              by (auto split: prod.split sum.split)
          qed
        next
          case ns: False
          show ?thesis
          proof (cases "py_type_origin = PyClass TupleC")
            case True
            from 2(7) [OF nu nl nd ns True] have "snd (infer_each lib reg args) = reg" .
            with nu nl nd ns True show ?thesis
              by (auto split: prod.split sum.split)
          next
            case False
            with nu nl nd ns show ?thesis by simp
          qed
        qed
      qed
    qed
  qed
next
  case (5 lib reg py_type rest)
  then show ?case
    by (fastforce split: prod.split sum.split)
next
  case (11 lib reg func funcs py_type result)
  then show ?case
    by (fastforce split: prod.split sum.split)
next
  case (12 lib reg py_type)
  then show ?case
    by (auto simp: try_infer.simps Let_def split: prod.split sum.split pyobj.split option.split)
next
  case (13 lib reg py_type)
  then show ?case
    by (auto simp: infer.simps split: prod.split sum.split option.split)
qed simp_all

lemma builtin_infer_eq: "builtin_infer lib reg py_type = (fst (builtin_infer lib reg py_type), reg)"
  and infer_each_eq: "infer_each lib reg args = (fst (infer_each lib reg args), reg)"
  and call_strategy_eq: "call_strategy lib reg func py_type = (fst (call_strategy lib reg func py_type), reg)"
  and run_functions_eq:
    "run_functions lib reg funcs py_type result = (fst (run_functions lib reg funcs py_type result), reg)"
  and try_infer_eq: "try_infer lib reg py_type = (fst (try_infer lib reg py_type), reg)"
  and infer_eq: "infer lib reg py_type = (fst (infer lib reg py_type), reg)"
  by (simp_all add: prod_eq_iff registry_unchanged)

lemma run_functions_present:
  "result \<noteq> PyNone \<Longrightarrow> run_functions lib reg funcs py_type result = (Inr result, reg)"
  by (cases funcs) simp_all

lemma run_functions_step:
  "run_functions lib reg (func # funcs) py_type PyNone =
     (case fst (call_strategy lib reg func py_type) of
        Inl e \<Rightarrow> (Inl e, reg)
      | Inr result1 \<Rightarrow> run_functions lib reg funcs py_type result1)"
proof -
  obtain x where "call_strategy lib reg func py_type = (x, reg)"
    using call_strategy_eq [of lib reg func py_type] by blast
  then show ?thesis by (simp split: sum.split)
qed

lemma run_functions_absent_prefix:
  "\<forall>g \<in> set pre. fst (call_strategy lib reg g py_type) = Inr PyNone \<Longrightarrow>
   run_functions lib reg (pre @ rest) py_type PyNone = run_functions lib reg rest py_type PyNone"
proof (induction pre)
  case Nil
  show ?case by simp
next
  case (Cons g pre)
  then show ?case by (simp only: append_Cons run_functions_step) simp
qed

lemma run_functions_first_present:
  assumes "\<forall>g \<in> set pre. fst (call_strategy lib reg g py_type) = Inr PyNone"
    and "fst (call_strategy lib reg func py_type) = Inr v" and "v \<noteq> PyNone"
  shows "run_functions lib reg (pre @ func # post) py_type PyNone = (Inr v, reg)"
  using assms
  by (simp only: run_functions_absent_prefix run_functions_step) (simp add: run_functions_present)

lemma run_functions_first_raises:
  assumes "\<forall>g \<in> set pre. fst (call_strategy lib reg g py_type) = Inr PyNone"
    and "fst (call_strategy lib reg func py_type) = Inl e"
  shows "run_functions lib reg (pre @ func # post) py_type PyNone = (Inl e, reg)"
  using assms
  by (simp only: run_functions_absent_prefix run_functions_step) simp

lemma run_functions_all_absent:
  "\<forall>g \<in> set funcs. fst (call_strategy lib reg g py_type) = Inr PyNone \<Longrightarrow>
   run_functions lib reg funcs py_type PyNone = (Inr PyNone, reg)"
  using run_functions_absent_prefix [of funcs lib reg py_type "[]"] by simp

lemma try_infer_lookup_hit:
  "lookup reg py_type = Some t \<Longrightarrow> try_infer lib reg py_type = (Inr (Some t), reg)"
  by (simp add: try_infer.simps run_functions_present)



lemma reachable_builtin_first:
  "reachable reg \<Longrightarrow> \<exists>funcs. functions_list reg = Builtin_infer # funcs"
proof (induction rule: reachable.induct)
  case constructed
  show ?case by (simp add: AsNumbaTypeRegistry_init_def)
next
  case (registered_type reg py_type numba_type reg')
  then show ?case
    by (auto simp: register_type_def split: if_splits pyobj.splits)
next
  case (registered_function reg func)
  then show ?case by (auto simp: register_function_def)
qed

lemma try_infer_builtin_raises:
  assumes "lookup reg py_type = None" and "functions_list reg = Builtin_infer # funcs"
    and "fst (builtin_infer lib reg py_type) = Inl e"
  shows "try_infer lib reg py_type = (Inl e, reg)"
proof -
  from assms(2,3) have "run_functions lib reg (functions_list reg) py_type PyNone = (Inl e, reg)"
    by (simp add: run_functions_step del: run_functions.simps)
  with assms(1) show ?thesis by (simp add: try_infer.simps)
qed

lemma try_infer_builtin_present:
  assumes "lookup reg py_type = None" and "functions_list reg = Builtin_infer # funcs"
    and "fst (builtin_infer lib reg py_type) = Inr (NbType t)"
  shows "try_infer lib reg py_type = (Inr (Some t), reg)"
proof -
  from assms(2,3)
  have "run_functions lib reg (functions_list reg) py_type PyNone = (Inr (NbType t), reg)"
    by (simp add: run_functions_step run_functions_present del: run_functions.simps)
  with assms(1) show ?thesis by (simp add: try_infer.simps)
qed

lemma infer_builtin_raises:
  assumes "lookup reg py_type = None" and "functions_list reg = Builtin_infer # funcs"
    and "fst (builtin_infer lib reg py_type) = Inl e"
  shows "infer lib reg py_type = (Inl e, reg)"
  using try_infer_builtin_raises [OF assms] by (simp add: infer.simps)

lemma infer_builtin_present:
  assumes "lookup reg py_type = None" and "functions_list reg = Builtin_infer # funcs"
    and "fst (builtin_infer lib reg py_type) = Inr (NbType t)"
  shows "infer lib reg py_type = (Inr t, reg)"
  using try_infer_builtin_present [OF assms] by (simp add: infer.simps)

text \<open>How \<open>builtin_infer\<close> passes on the result of one recursive call.\<close>

lemma fst_case_result:
  "fst (case p of (Inl e, r) \<Rightarrow> (Inl e, r) | (Inr t, r) \<Rightarrow> (g t, r)) =
     (case fst p of Inl e \<Rightarrow> Inl e | Inr t \<Rightarrow> g t)"
  by (simp split: prod.split sum.split)

lemma return_type_case:
  "(case x of Inl e \<Rightarrow> Inl e | Inr t \<Rightarrow> return_type (g t)) =
     return_type (case x of Inl e \<Rightarrow> Inl e | Inr t \<Rightarrow> g t)"
  by (cases x) (simp_all add: return_type_def)

lemma return_type_Inr: "(case x of Inl e \<Rightarrow> Inl e | Inr t \<Rightarrow> Inr (NbType t)) = return_type x"
  by (simp add: return_type_def)

lemma infer_through_builtin:
  assumes miss: "lookup reg py_type = None" and first: "functions_list reg = Builtin_infer # funcs"
    and step: "fst (builtin_infer lib reg py_type) = return_type r"
  shows "infer lib reg py_type = (r, reg)"
proof (cases r)
  case (Inl e)
  with step have "fst (builtin_infer lib reg py_type) = Inl e" by (simp add: return_type_def)
  from infer_builtin_raises [OF miss first this] Inl show ?thesis by simp
next
  case (Inr t)
  with step have "fst (builtin_infer lib reg py_type) = Inr (NbType t)"
    by (simp add: return_type_def)
  from infer_builtin_present [OF miss first this] Inr show ?thesis by simp
qed

lemma try_infer_lookup_miss:
  assumes "lookup reg py_type = None"
    and "run_functions lib reg (functions_list reg) py_type PyNone = (r, reg)"
  shows "try_infer lib reg py_type =
           (case r of
              Inl e \<Rightarrow> (Inl e, reg)
            | Inr PyNone \<Rightarrow> (Inr None, reg)
            | Inr (NbType t) \<Rightarrow> (Inr (Some t), reg)
            | Inr result1 \<Rightarrow> (Inl (TypingError (NotNumbaType result1)), reg))"
  using assms by (simp add: try_infer.simps split: sum.split pyobj.split)

lemma builtin_infer_single:
  "fst (builtin_infer lib reg (AnnotatedAlias inner_py_type [M])) = return_type (fst (infer lib reg M))"
  by (simp add: builtin_infer.simps(1) fst_case_result return_type_Inr)

lemma builtin_infer_array:
  assumes "length annotations = 2 \<or> length annotations = 3"
    and "is_int (annotations ! 1)"
  shows "fst (builtin_infer lib reg (AnnotatedAlias (PyClass NdarrayC) annotations)) =
           return_type
             (case fst (infer lib reg (annotations ! 0)) of
                Inl e \<Rightarrow> Inl e
              | Inr dtype \<Rightarrow>
                  types_Array lib dtype (annotations ! 1)
                    (if length annotations = 3 then annotations ! 2 else PyStr ''A''))"
  using assms
  by (auto simp: builtin_infer.simps(1) Let_def fst_case_result return_type_case)

lemma builtin_infer_union:
  "fst (builtin_infer lib reg (GenericAlias TypingUnion args)) =
     (if length args \<noteq> 2 then Inl (TypingError UnionMoreThanTwo)
      else if args ! 1 = PyClass NoneTypeC then
        return_type
          (case fst (infer lib reg (args ! 0)) of Inl e \<Rightarrow> Inl e | Inr t \<Rightarrow> types_Optional lib t)
      else if args ! 0 = PyClass NoneTypeC then
        return_type
          (case fst (infer lib reg (args ! 1)) of Inl e \<Rightarrow> Inl e | Inr t \<Rightarrow> types_Optional lib t)
      else Inl (TypingError (UnionNotOptional (args ! 1))))"
  by (simp add: builtin_infer.simps(2) Let_def fst_case_result return_type_case)

subsection \<open>Equations without the registry\<close>











subsection \<open>Exceptions that resolution raises\<close>

lemma fails_only_return_type [simp]: "fails_only P (return_type r) = fails_only P r"
  by (cases r) (simp_all add: return_type_def)


lemma fails_only_mono: "fails_only P x \<Longrightarrow> (\<And>e. P e \<Longrightarrow> Q e) \<Longrightarrow> fails_only Q x"
  by (cases x) simp_all



lemmas example_simps = resolution_simps example_types_def return_type_def

subsection \<open>Claims\<close>

text \<open>
  C1 (as amended). The constructed registry holds exactly the three built-in functions, in the
  order \<^verbatim>\<open>_builtin_infer\<close> (generic and metadata shapes), \<^verbatim>\<open>_numba_type_infer\<close> (a numba type
  passes through), \<^verbatim>\<open>_numpy_type_infer\<close> (native scalar kinds). \<^verbatim>\<open>try_infer\<close> consults the list
  in order: for a Python type without lookup entry, the first function that does not return
  \<^verbatim>\<open>None\<close> decides, by its numba type or by its exception.
\<close>

theorem C1_construction_order:
  "functions_list AsNumbaTypeRegistry_init = [Builtin_infer, Numba_type_infer, Numpy_type_infer]
   \<and> (lookup reg py_type = None \<and> functions_list reg = pre @ func # post
        \<and> (\<forall>g \<in> set pre. fst (call_strategy lib reg g py_type) = Inr PyNone)
      \<longrightarrow> (\<forall>t. fst (call_strategy lib reg func py_type) = Inr (NbType t)
                 \<longrightarrow> try_infer lib reg py_type = (Inr (Some t), reg))
          \<and> (\<forall>e. fst (call_strategy lib reg func py_type) = Inl e
                 \<longrightarrow> try_infer lib reg py_type = (Inl e, reg)))"
proof (intro conjI impI allI)
  show "functions_list AsNumbaTypeRegistry_init = [Builtin_infer, Numba_type_infer, Numpy_type_infer]"
    by (simp add: AsNumbaTypeRegistry_init_def)
next
  fix t
  assume h: "lookup reg py_type = None \<and> functions_list reg = pre @ func # post
        \<and> (\<forall>g \<in> set pre. fst (call_strategy lib reg g py_type) = Inr PyNone)"
    and p: "fst (call_strategy lib reg func py_type) = Inr (NbType t)"
  from h p have "run_functions lib reg (functions_list reg) py_type PyNone = (Inr (NbType t), reg)"
    by (simp add: run_functions_first_present)
  with h show "try_infer lib reg py_type = (Inr (Some t), reg)"
    by (simp add: try_infer_lookup_miss)
next
  fix e
  assume h: "lookup reg py_type = None \<and> functions_list reg = pre @ func # post
        \<and> (\<forall>g \<in> set pre. fst (call_strategy lib reg g py_type) = Inr PyNone)"
    and p: "fst (call_strategy lib reg func py_type) = Inl e"
  from h p have "run_functions lib reg (functions_list reg) py_type PyNone = (Inl e, reg)"
    by (simp add: run_functions_first_raises)
  with h show "try_infer lib reg py_type = (Inl e, reg)"
    by (simp add: try_infer_lookup_miss)
qed

theorem C1_construction_order_witness:
  "functions_list AsNumbaTypeRegistry_init = [Builtin_infer] @ Numba_type_infer # [Numpy_type_infer]
   \<and> lookup AsNumbaTypeRegistry_init (NbType (OtherType 7)) = None
   \<and> fst (call_strategy example_types AsNumbaTypeRegistry_init Builtin_infer (NbType (OtherType 7)))
       = Inr PyNone
   \<and> fst (call_strategy example_types AsNumbaTypeRegistry_init Numba_type_infer
            (NbType (OtherType 7)))
       = Inr (NbType (OtherType 7))
   \<and> try_infer example_types AsNumbaTypeRegistry_init (NbType (OtherType 7))
       = (Inr (Some (OtherType 7)), AsNumbaTypeRegistry_init)"
proof -
  have 1: "functions_list AsNumbaTypeRegistry_init = [Builtin_infer] @ Numba_type_infer # [Numpy_type_infer]"
    and 2: "lookup AsNumbaTypeRegistry_init (NbType (OtherType 7)) = None"
    by (simp_all add: AsNumbaTypeRegistry_init_def)
  have 3: "fst (call_strategy example_types AsNumbaTypeRegistry_init Builtin_infer
                  (NbType (OtherType 7))) = Inr PyNone"
    and 4: "fst (call_strategy example_types AsNumbaTypeRegistry_init Numba_type_infer
                  (NbType (OtherType 7))) = Inr (NbType (OtherType 7))"
    by simp_all
  from C1_construction_order [where lib = example_types and reg = AsNumbaTypeRegistry_init
         and py_type = "NbType (OtherType 7)" and pre = "[Builtin_infer]"
         and func = Numba_type_infer and post = "[Numpy_type_infer]"] 1 2 3 4
  show ?thesis by simp
qed

text \<open>
  C1 as stated has the order passthrough, native scalar kinds, generic and metadata shapes;
  that is not the list which \<^verbatim>\<open>__init__\<close> builds.
\<close>

theorem C1_counterexample:
  "functions_list AsNumbaTypeRegistry_init \<noteq> [Numba_type_infer, Numpy_type_infer, Builtin_infer]"
  by (simp add: AsNumbaTypeRegistry_init_def)

text \<open>
  C2 (as amended). In a reachable registry, for a metadata wrapper around \<^verbatim>\<open>np.ndarray\<close> without
  lookup entry of its own, whose metadata has two or three elements, the second of them an
  integer, and whose first metadata element resolves to \<open>dtype\<close>: the wrapper resolves to what
  \<^verbatim>\<open>types.Array\<close> gives for this \<open>dtype\<close>, the second metadata element as \<^verbatim>\<open>ndim\<close>, and as
  layout the third metadata element if there is one, else \<^verbatim>\<open>"A"\<close>: the array type, or the
  exception of \<^verbatim>\<open>types.Array\<close>.
\<close>

theorem C2_array_from_metadata:
  assumes "reachable reg"
    and "lookup reg (AnnotatedAlias (PyClass NdarrayC) annotations) = None"
    and "length annotations = 2 \<or> length annotations = 3"
    and "is_int (annotations ! 1)"
    and "fst (infer lib reg (annotations ! 0)) = Inr dtype"
  shows "infer lib reg (AnnotatedAlias (PyClass NdarrayC) annotations) =
           (types_Array lib dtype (annotations ! 1)
              (if length annotations = 3 then annotations ! 2 else PyStr ''A''), reg)"
proof -
  from assms(1) obtain funcs where first: "functions_list reg = Builtin_infer # funcs"
    using reachable_builtin_first by blast
  from infer_through_builtin [OF assms(2) first builtin_infer_array [OF assms(3,4)]] assms(5)
  show ?thesis by simp
qed

theorem C2_array_from_metadata_witness:
  "infer example_types AsNumbaTypeRegistry_init
     (AnnotatedAlias (PyClass NdarrayC) [PyClass ComplexC, PyInt 3, PyStr ''F''])
     = (Inr (Array (Scalar ComplexS) (PyInt 3) (PyStr ''F'')), AsNumbaTypeRegistry_init)
   \<and> infer example_types AsNumbaTypeRegistry_init
     (AnnotatedAlias (PyClass NdarrayC) [PyClass ComplexC, PyInt 3, PyStr ''X''])
     = (Inl (TypingError (RaisedByTypes ''NumbaValueError'')), AsNumbaTypeRegistry_init)"
proof -
  let ?F = "[PyClass ComplexC, PyInt 3, PyStr ''F'']"
  let ?X = "[PyClass ComplexC, PyInt 3, PyStr ''X'']"
  have f1: "lookup AsNumbaTypeRegistry_init (AnnotatedAlias (PyClass NdarrayC) ?F) = None"
    and x1: "lookup AsNumbaTypeRegistry_init (AnnotatedAlias (PyClass NdarrayC) ?X) = None"
    by (simp_all add: AsNumbaTypeRegistry_init_def)
  have f2: "length ?F = 2 \<or> length ?F = 3" and x2: "length ?X = 2 \<or> length ?X = 3" by simp_all
  have f3: "is_int (?F ! 1)" and x3: "is_int (?X ! 1)" by simp_all
  have f4: "fst (infer example_types AsNumbaTypeRegistry_init (?F ! 0)) = Inr (Scalar ComplexS)"
    and x4: "fst (infer example_types AsNumbaTypeRegistry_init (?X ! 0)) = Inr (Scalar ComplexS)"
    by (simp_all add: infer.simps try_infer_lookup_hit AsNumbaTypeRegistry_init_def)
  from C2_array_from_metadata [OF reachable.constructed f1 f2 f3 f4]
       C2_array_from_metadata [OF reachable.constructed x1 x2 x3 x4]
  show ?thesis by (simp add: example_types_def)
qed

text \<open>
  C2 as stated takes the first metadata element as the integer and resolves the wrapped type.
  For \<^verbatim>\<open>Annotated[np.ndarray, 2, float]\<close> the premises of C2 hold, and resolution raises the
  \<^verbatim>\<open>TypingError\<close> of an invalid \<^verbatim>\<open>Annotated\<close>, also in a registry in which \<^verbatim>\<open>np.ndarray\<close> itself
  resolves.
\<close>

theorem C2_counterexample:
  "register_type AsNumbaTypeRegistry_init (PyClass NdarrayC) (NbType (OtherType 0))
     = Inr ndarray_registered
   \<and> fst (infer example_types ndarray_registered (PyClass NdarrayC)) = Inr (OtherType 0)
   \<and> fst (infer example_types ndarray_registered
            (AnnotatedAlias (PyClass NdarrayC) [PyInt 2, PyClass FloatC]))
       = Inl (TypingError InvalidAnnotated)
   \<and> fst (infer example_types AsNumbaTypeRegistry_init
            (AnnotatedAlias (PyClass NdarrayC) [PyInt 2, PyClass FloatC]))
       = Inl (TypingError InvalidAnnotated)"
  by (simp add: register_type_def ndarray_registered_def resolution_simps)

text \<open>
  C3. In a reachable registry in which \<open>dtype_descriptor\<close> resolves to \<open>dtype\<close>, the wrapper
  around \<^verbatim>\<open>np.ndarray\<close> with metadata \<^verbatim>\<open>(dtype_descriptor, 2)\<close> resolves to what
  \<^verbatim>\<open>Array(dtype, 2, "A")\<close> gives, and with metadata \<^verbatim>\<open>(dtype_descriptor, 2, "C")\<close> to what
  \<^verbatim>\<open>Array(dtype, 2, "C")\<close> gives (wrappers without lookup entry of their own).
\<close>

theorem C3_array_shape:
  assumes "reachable reg"
    and "lookup reg (AnnotatedAlias (PyClass NdarrayC) [dtype_descriptor, PyInt 2]) = None"
    and "lookup reg (AnnotatedAlias (PyClass NdarrayC) [dtype_descriptor, PyInt 2, PyStr ''C'']) = None"
    and "fst (infer lib reg dtype_descriptor) = Inr dtype"
  shows "infer lib reg (AnnotatedAlias (PyClass NdarrayC) [dtype_descriptor, PyInt 2])
           = (types_Array lib dtype (PyInt 2) (PyStr ''A''), reg)
       \<and> infer lib reg (AnnotatedAlias (PyClass NdarrayC) [dtype_descriptor, PyInt 2, PyStr ''C''])
           = (types_Array lib dtype (PyInt 2) (PyStr ''C''), reg)"
proof -
  from assms(1) obtain funcs where first: "functions_list reg = Builtin_infer # funcs"
    using reachable_builtin_first by blast
  have a: "fst (builtin_infer lib reg (AnnotatedAlias (PyClass NdarrayC) [dtype_descriptor, PyInt 2]))
             = return_type (types_Array lib dtype (PyInt 2) (PyStr ''A''))"
    using builtin_infer_array [of "[dtype_descriptor, PyInt 2]" lib reg] assms(4) by simp
  have c: "fst (builtin_infer lib reg (AnnotatedAlias (PyClass NdarrayC)
                  [dtype_descriptor, PyInt 2, PyStr ''C'']))
             = return_type (types_Array lib dtype (PyInt 2) (PyStr ''C''))"
    using builtin_infer_array [of "[dtype_descriptor, PyInt 2, PyStr ''C'']" lib reg] assms(4)
    by simp
  from infer_through_builtin [OF assms(2) first a] infer_through_builtin [OF assms(3) first c]
  show ?thesis by simp
qed

theorem C3_array_shape_witness:
  "infer example_types AsNumbaTypeRegistry_init
     (AnnotatedAlias (PyClass NdarrayC) [PyClass FloatC, PyInt 2])
     = (Inr (Array (Scalar FloatS) (PyInt 2) (PyStr ''A'')), AsNumbaTypeRegistry_init)
   \<and> infer example_types AsNumbaTypeRegistry_init
         (AnnotatedAlias (PyClass NdarrayC) [PyClass FloatC, PyInt 2, PyStr ''C''])
     = (Inr (Array (Scalar FloatS) (PyInt 2) (PyStr ''C'')), AsNumbaTypeRegistry_init)
   \<and> infer example_types AsNumbaTypeRegistry_init
         (AnnotatedAlias (PyClass NdarrayC)
            [NbType (Array (Scalar FloatS) (PyInt 1) (PyStr ''C'')), PyInt 2])
     = (Inl (TypingError (RaisedByTypes ''NumbaTypeError'')), AsNumbaTypeRegistry_init)"
proof -
  let ?buffer = "NbType (Array (Scalar FloatS) (PyInt 1) (PyStr ''C''))"
  have miss: "lookup AsNumbaTypeRegistry_init (AnnotatedAlias (PyClass NdarrayC) annotations) = None"
    for annotations
    by (simp add: AsNumbaTypeRegistry_init_def)
  have f: "fst (infer example_types AsNumbaTypeRegistry_init (PyClass FloatC)) = Inr (Scalar FloatS)"
    by (simp add: infer.simps try_infer_lookup_hit AsNumbaTypeRegistry_init_def)
  have b: "fst (infer example_types AsNumbaTypeRegistry_init ?buffer)
             = Inr (Array (Scalar FloatS) (PyInt 1) (PyStr ''C''))"
    by (simp add: example_simps)
  from C3_array_shape [OF reachable.constructed miss miss f]
       C3_array_shape [OF reachable.constructed miss miss b]
  show ?thesis
    by (simp add: example_types_def)
qed

text \<open>
  C4. A Python type with an entry in the lookup table resolves to that entry whatever the list of
  functions holds; registering a function, whatever it returns or raises on that type, does not
  change the result.
\<close>

theorem C4_lookup_wins:
  assumes "lookup reg py_type = Some t"
  shows "try_infer lib reg py_type = (Inr (Some t), reg)
       \<and> try_infer lib (register_function reg func) py_type
           = (Inr (Some t), register_function reg func)"
  using assms by (simp add: try_infer_lookup_hit register_function_def)

theorem C4_lookup_wins_witness:
  "lookup AsNumbaTypeRegistry_init (PyClass IntC) = Some (Scalar IntS)
   \<and> fst (try_infer example_types
            (register_function AsNumbaTypeRegistry_init (\<lambda>py_type. Inr (NbType (Scalar FloatS))))
            (PyClass IntC)) = Inr (Some (Scalar IntS))
   \<and> fst (try_infer example_types
            (register_function AsNumbaTypeRegistry_init (\<lambda>py_type. Inl (OtherError ''KeyError'')))
            (PyClass IntC)) = Inr (Some (Scalar IntS))"
proof -
  have h: "lookup AsNumbaTypeRegistry_init (PyClass IntC) = Some (Scalar IntS)"
    by (simp add: AsNumbaTypeRegistry_init_def)
  from C4_lookup_wins [OF h, where lib = example_types
         and func = "\<lambda>py_type. Inr (NbType (Scalar FloatS))"]
       C4_lookup_wins [OF h, where lib = example_types
         and func = "\<lambda>py_type. Inl (OtherError ''KeyError'')"] h
  show ?thesis by simp
qed

text \<open>
  C5. In a reachable registry, for a union without lookup entry of its own: with other than two
  members resolution raises \<^verbatim>\<open>TypingError\<close>; with two members of which exactly one is
  \<^verbatim>\<open>NoneType\<close> it is what \<^verbatim>\<open>types.Optional\<close> gives for the numba type that the other member
  resolves to (and raises what the other member raises); with two members of which none is
  \<^verbatim>\<open>NoneType\<close> it raises \<^verbatim>\<open>TypingError\<close>.
\<close>

theorem C5_union:
  assumes "reachable reg" and "lookup reg (GenericAlias TypingUnion args) = None"
  shows "(length args \<noteq> 2 \<longrightarrow>
            infer lib reg (GenericAlias TypingUnion args)
              = (Inl (TypingError UnionMoreThanTwo), reg))
       \<and> (\<forall>other. other \<noteq> PyClass NoneTypeC
             \<and> (args = [other, PyClass NoneTypeC] \<or> args = [PyClass NoneTypeC, other]) \<longrightarrow>
            infer lib reg (GenericAlias TypingUnion args) =
              (case fst (infer lib reg other) of Inl e \<Rightarrow> Inl e | Inr t \<Rightarrow> types_Optional lib t,
               reg))
       \<and> (\<forall>arg_1_py arg_2_py. args = [arg_1_py, arg_2_py]
             \<and> arg_1_py \<noteq> PyClass NoneTypeC \<and> arg_2_py \<noteq> PyClass NoneTypeC \<longrightarrow>
            infer lib reg (GenericAlias TypingUnion args) =
              (Inl (TypingError (UnionNotOptional arg_2_py)), reg))"
proof -
  from assms(1) obtain funcs where first: "functions_list reg = Builtin_infer # funcs"
    using reachable_builtin_first by blast
  note raises = infer_builtin_raises [OF assms(2) first]
  note through = infer_through_builtin [OF assms(2) first]
  have more: "infer lib reg (GenericAlias TypingUnion args)
                = (Inl (TypingError UnionMoreThanTwo), reg)"
    if "length args \<noteq> 2"
    using that by (intro raises) (simp add: builtin_infer_union)
  have opt: "infer lib reg (GenericAlias TypingUnion args) =
              (case fst (infer lib reg other) of Inl e \<Rightarrow> Inl e | Inr t \<Rightarrow> types_Optional lib t,
               reg)"
    if "other \<noteq> PyClass NoneTypeC"
      and "args = [other, PyClass NoneTypeC] \<or> args = [PyClass NoneTypeC, other]" for other
    using that by (intro through) (auto simp: builtin_infer_union)
  have non: "infer lib reg (GenericAlias TypingUnion args) =
              (Inl (TypingError (UnionNotOptional arg_2_py)), reg)"
    if "args = [arg_1_py, arg_2_py]" "arg_1_py \<noteq> PyClass NoneTypeC" "arg_2_py \<noteq> PyClass NoneTypeC"
    for arg_1_py arg_2_py
    using that by (intro raises) (simp add: builtin_infer_union)
  from more opt non show ?thesis by blast
qed

theorem C5_union_witness:
  "infer example_types AsNumbaTypeRegistry_init
     (GenericAlias TypingUnion [PyClass IntC, PyClass StrC, PyClass NoneTypeC])
     = (Inl (TypingError UnionMoreThanTwo), AsNumbaTypeRegistry_init)
   \<and> infer example_types AsNumbaTypeRegistry_init
         (GenericAlias TypingUnion [PyClass IntC, PyClass NoneTypeC])
     = (Inr (Optional (Scalar IntS)), AsNumbaTypeRegistry_init)
   \<and> infer example_types AsNumbaTypeRegistry_init
         (GenericAlias TypingUnion [PyClass NoneTypeC, PyClass FloatC])
     = (Inr (Optional (Scalar FloatS)), AsNumbaTypeRegistry_init)
   \<and> infer example_types AsNumbaTypeRegistry_init
         (GenericAlias TypingUnion [NbType (Scalar NoneS), PyClass NoneTypeC])
     = (Inl AssertionError, AsNumbaTypeRegistry_init)
   \<and> infer example_types AsNumbaTypeRegistry_init
         (GenericAlias TypingUnion [PyClass IntC, PyClass StrC])
     = (Inl (TypingError (UnionNotOptional (PyClass StrC))), AsNumbaTypeRegistry_init)"
proof -
  have miss: "lookup AsNumbaTypeRegistry_init (GenericAlias TypingUnion args) = None" for args
    by (simp add: AsNumbaTypeRegistry_init_def)
  have i: "fst (infer example_types AsNumbaTypeRegistry_init (PyClass IntC)) = Inr (Scalar IntS)"
    and f: "fst (infer example_types AsNumbaTypeRegistry_init (PyClass FloatC))
              = Inr (Scalar FloatS)"
    by (simp_all add: infer.simps try_infer_lookup_hit AsNumbaTypeRegistry_init_def)
  have n: "fst (infer example_types AsNumbaTypeRegistry_init (NbType (Scalar NoneS)))
             = Inr (Scalar NoneS)"
    by (simp add: example_simps)
  from C5_union [OF reachable.constructed miss, where lib = example_types
         and args = "[PyClass IntC, PyClass StrC, PyClass NoneTypeC]"]
  have 1: "infer example_types AsNumbaTypeRegistry_init
             (GenericAlias TypingUnion [PyClass IntC, PyClass StrC, PyClass NoneTypeC])
           = (Inl (TypingError UnionMoreThanTwo), AsNumbaTypeRegistry_init)"
    by simp
  from C5_union [OF reachable.constructed miss, where lib = example_types
         and args = "[PyClass IntC, PyClass NoneTypeC]"] i
  have 2: "infer example_types AsNumbaTypeRegistry_init
             (GenericAlias TypingUnion [PyClass IntC, PyClass NoneTypeC])
           = (Inr (Optional (Scalar IntS)), AsNumbaTypeRegistry_init)"
    by (simp add: example_types_def)
  from C5_union [OF reachable.constructed miss, where lib = example_types
         and args = "[PyClass NoneTypeC, PyClass FloatC]"] f
  have 3: "infer example_types AsNumbaTypeRegistry_init
             (GenericAlias TypingUnion [PyClass NoneTypeC, PyClass FloatC])
           = (Inr (Optional (Scalar FloatS)), AsNumbaTypeRegistry_init)"
    by (simp add: example_types_def)
  from C5_union [OF reachable.constructed miss, where lib = example_types
         and args = "[NbType (Scalar NoneS), PyClass NoneTypeC]"] n
  have 4: "infer example_types AsNumbaTypeRegistry_init
             (GenericAlias TypingUnion [NbType (Scalar NoneS), PyClass NoneTypeC])
           = (Inl AssertionError, AsNumbaTypeRegistry_init)"
    by (simp add: example_types_def)
  from C5_union [OF reachable.constructed miss, where lib = example_types
         and args = "[PyClass IntC, PyClass StrC]"]
  have 5: "infer example_types AsNumbaTypeRegistry_init
             (GenericAlias TypingUnion [PyClass IntC, PyClass StrC])
           = (Inl (TypingError (UnionNotOptional (PyClass StrC))), AsNumbaTypeRegistry_init)"
    by simp
  from 1 2 3 4 5 show ?thesis by simp
qed

text \<open>
  C6. For a Python type without lookup entry on which every function of the list returns
  \<^verbatim>\<open>None\<close>, \<^verbatim>\<open>try_infer\<close> returns \<^verbatim>\<open>None\<close> and \<^verbatim>\<open>infer\<close> raises the \<^verbatim>\<open>TypingError\<close> that names
  this Python type. Whenever \<^verbatim>\<open>try_infer\<close> returns a numba type, \<^verbatim>\<open>infer\<close> returns the same.
\<close>

theorem C6_absent_and_present:
  "(lookup reg py_type = None
      \<and> (\<forall>func \<in> set (functions_list reg). fst (call_strategy lib reg func py_type) = Inr PyNone)
     \<longrightarrow> try_infer lib reg py_type = (Inr None, reg)
         \<and> infer lib reg py_type = (Inl (TypingError (CannotInfer py_type)), reg))
   \<and> (fst (try_infer lib reg py_type) = Inr (Some t) \<longrightarrow> infer lib reg py_type = (Inr t, reg))"
proof (intro conjI impI)
  assume h: "lookup reg py_type = None
      \<and> (\<forall>func \<in> set (functions_list reg). fst (call_strategy lib reg func py_type) = Inr PyNone)"
  then have "run_functions lib reg (functions_list reg) py_type PyNone = (Inr PyNone, reg)"
    by (simp add: run_functions_all_absent)
  with h show t: "try_infer lib reg py_type = (Inr None, reg)"
    by (simp add: try_infer_lookup_miss)
  then show "infer lib reg py_type = (Inl (TypingError (CannotInfer py_type)), reg)"
    by (simp add: infer.simps)
next
  assume "fst (try_infer lib reg py_type) = Inr (Some t)"
  with try_infer_eq [of lib reg py_type] have "try_infer lib reg py_type = (Inr (Some t), reg)"
    by simp
  then show "infer lib reg py_type = (Inr t, reg)"
    by (simp add: infer.simps)
qed

theorem C6_absent_and_present_witness:
  "lookup AsNumbaTypeRegistry_init (PyClass (UserClass 0)) = None
   \<and> fst (try_infer example_types AsNumbaTypeRegistry_init (PyClass (UserClass 0))) = Inr None
   \<and> fst (infer example_types AsNumbaTypeRegistry_init (PyClass (UserClass 0)))
       = Inl (TypingError (CannotInfer (PyClass (UserClass 0))))
   \<and> fst (try_infer example_types AsNumbaTypeRegistry_init (PyClass StrC))
       = Inr (Some (Scalar StrS))
   \<and> fst (infer example_types AsNumbaTypeRegistry_init (PyClass StrC)) = Inr (Scalar StrS)"
proof -
  have h: "lookup AsNumbaTypeRegistry_init (PyClass (UserClass 0)) = None
   \<and> (\<forall>func \<in> set (functions_list AsNumbaTypeRegistry_init).
         fst (call_strategy example_types AsNumbaTypeRegistry_init func (PyClass (UserClass 0)))
           = Inr PyNone)"
    by (simp add: AsNumbaTypeRegistry_init_def)
  have p: "fst (try_infer example_types AsNumbaTypeRegistry_init (PyClass StrC))
             = Inr (Some (Scalar StrS))"
    by (simp add: try_infer_lookup_hit AsNumbaTypeRegistry_init_def)
  from C6_absent_and_present [where lib = example_types and reg = AsNumbaTypeRegistry_init
         and py_type = "PyClass (UserClass 0)" and t = "Scalar StrS"]
       C6_absent_and_present [where lib = example_types and reg = AsNumbaTypeRegistry_init
         and py_type = "PyClass StrC" and t = "Scalar StrS"]
       h p
  show ?thesis by simp
qed

text \<open>
  C7. For a Python type without lookup entry: if the functions before \<open>func\<close> in the list
  return \<^verbatim>\<open>None\<close> and \<open>func\<close> returns an object \<open>v\<close> that is neither \<^verbatim>\<open>None\<close> nor an instance
  of \<^verbatim>\<open>types.Type\<close>, then \<^verbatim>\<open>try_infer\<close> (and so \<^verbatim>\<open>infer\<close>) raises \<^verbatim>\<open>TypingError\<close>; \<open>v\<close> is not
  returned.
\<close>

theorem C7_malformed_result_raises:
  assumes "lookup reg py_type = None"
    and "functions_list reg = pre @ func # post"
    and "\<forall>g \<in> set pre. fst (call_strategy lib reg g py_type) = Inr PyNone"
    and "fst (call_strategy lib reg func py_type) = Inr v"
    and "v \<noteq> PyNone" and "\<forall>t. v \<noteq> NbType t"
  shows "try_infer lib reg py_type = (Inl (TypingError (NotNumbaType v)), reg)
       \<and> infer lib reg py_type = (Inl (TypingError (NotNumbaType v)), reg)"
proof -
  from assms(2) run_functions_first_present [OF assms(3,4,5)]
  have "run_functions lib reg (functions_list reg) py_type PyNone = (Inr v, reg)" by simp
  from try_infer_lookup_miss [OF assms(1) this] assms(5,6)
  have "try_infer lib reg py_type = (Inl (TypingError (NotNumbaType v)), reg)"
    by (cases v) simp_all
  then show ?thesis by (simp add: infer.simps)
qed

theorem C7_malformed_result_raises_witness:
  "fst (try_infer example_types
         (register_function AsNumbaTypeRegistry_init (\<lambda>py_type. Inr (PyInt 5)))
         (PyClass (UserClass 0)))
     = Inl (TypingError (NotNumbaType (PyInt 5)))"
proof -
  let ?reg = "register_function AsNumbaTypeRegistry_init (\<lambda>py_type. Inr (PyInt 5))"
  have 1: "lookup ?reg (PyClass (UserClass 0)) = None"
    by (simp add: register_function_def AsNumbaTypeRegistry_init_def)
  have 2: "functions_list ?reg =
             [Builtin_infer, Numba_type_infer, Numpy_type_infer] @ Custom (\<lambda>py_type. Inr (PyInt 5)) # []"
    by (simp add: register_function_def AsNumbaTypeRegistry_init_def)
  have 3: "\<forall>g \<in> set [Builtin_infer, Numba_type_infer, Numpy_type_infer].
             fst (call_strategy example_types ?reg g (PyClass (UserClass 0))) = Inr PyNone"
    by simp
  have 4: "fst (call_strategy example_types ?reg (Custom (\<lambda>py_type. Inr (PyInt 5)))
                  (PyClass (UserClass 0)))
             = Inr (PyInt 5)"
    by simp
  from C7_malformed_result_raises [OF 1 2 3 4] show ?thesis by simp
qed




text \<open>
  C9. In a reachable registry, a metadata wrapper \<^verbatim>\<open>Annotated[inner, M]\<close> with the single
  metadata element \<open>M\<close> and no entry of its own in the lookup table resolves as \<open>M\<close> does:
  to the same numba type, or with the same exception. The wrapped type \<open>inner\<close> plays no part.
\<close>

theorem C9_single_metadata:
  assumes "reachable reg" and "lookup reg (AnnotatedAlias inner_py_type [M]) = None"
  shows "infer lib reg (AnnotatedAlias inner_py_type [M]) = infer lib reg M"
proof -
  from assms(1) obtain funcs where first: "functions_list reg = Builtin_infer # funcs"
    using reachable_builtin_first by blast
  from infer_through_builtin [OF assms(2) first builtin_infer_single]
  have "infer lib reg (AnnotatedAlias inner_py_type [M]) = (fst (infer lib reg M), reg)" .
  then show ?thesis using infer_eq [of lib reg M] by simp
qed

theorem C9_single_metadata_witness:
  "reachable AsNumbaTypeRegistry_init
   \<and> lookup AsNumbaTypeRegistry_init (AnnotatedAlias (PyClass IntC) [PyClass FloatC]) = None
   \<and> infer example_types AsNumbaTypeRegistry_init (AnnotatedAlias (PyClass IntC) [PyClass FloatC])
       = (Inr (Scalar FloatS), AsNumbaTypeRegistry_init)"
proof -
  have h: "lookup AsNumbaTypeRegistry_init (AnnotatedAlias (PyClass IntC) [PyClass FloatC]) = None"
    by (simp add: AsNumbaTypeRegistry_init_def)
  have "infer example_types AsNumbaTypeRegistry_init (PyClass FloatC)
          = (Inr (Scalar FloatS), AsNumbaTypeRegistry_init)"
    by (simp add: infer.simps try_infer_lookup_hit AsNumbaTypeRegistry_init_def)
  with C9_single_metadata [OF reachable.constructed h, where lib = example_types]
       h reachable.constructed
  show ?thesis by simp
qed

text \<open>
  C10. Calling \<^verbatim>\<open>try_infer\<close> or \<^verbatim>\<open>infer\<close> leaves the lookup table and the list of functions
  of the registry as they are, for every Python type and every registry, whether the call
  returns or raises.
\<close>

theorem C10_resolution_reads_only:
  "snd (try_infer lib reg py_type) = reg \<and> snd (infer lib reg py_type) = reg"
  by (simp add: registry_unchanged)

theorem C10_resolution_reads_only_witness:
  "fst (infer example_types AsNumbaTypeRegistry_init (Opaque 0))
     = Inl (TypingError (CannotInfer (Opaque 0)))
   \<and> snd (try_infer example_types AsNumbaTypeRegistry_init (Opaque 0)) = AsNumbaTypeRegistry_init
   \<and> snd (infer example_types AsNumbaTypeRegistry_init (Opaque 0)) = AsNumbaTypeRegistry_init"
proof -
  have "fst (infer example_types AsNumbaTypeRegistry_init (Opaque 0))
          = Inl (TypingError (CannotInfer (Opaque 0)))"
    by (simp add: resolution_simps)
  with C10_resolution_reads_only [of example_types AsNumbaTypeRegistry_init "Opaque 0"]
  show ?thesis by simp
qed

end
